theory Spec2Isabelle
  imports Main "HOL-Library.Sublist"
begin

section \<open>Python values and exceptions\<close>

text \<open>
  The values that flow through the SDK code under study are JSON-like: strings, integers,
  booleans, \<open>None\<close>, lists and dictionaries with string keys.  A dictionary is kept as an
  association list in insertion order; the SDK code never builds a dictionary with a
  repeated key.  Strings are byte lists; every literal of the source is ASCII.
\<close>

datatype pyval =
    PNone
  | PBool bool
  | PInt int
  | PStr string
  | PList "pyval list"
  | PDict "(string \<times> pyval) list"

text \<open>
  The attributes of an \<open>SDKException\<close> object (\<open>exception.py\<close>, class \<open>SDKException\<close>).
  The message handed to \<open>Exception.__init__\<close> is the final \<open>exception_message\<close>.
\<close>

record SDKException =
  exception_module :: string
  exception_id :: string
  exception_message :: string

text \<open>
  What a \<open>raise\<close> can carry out of the code: the built-in exceptions of the interpreter
  that the code can trigger (a \<open>KeyError\<close> keeps the missing key), and the SDK's own
  exception.
\<close>

datatype py_error =
    KeyError pyval
  | TypeError
  | IndexError
  | SDKError SDKException

section \<open>exception.py\<close>

text \<open>The table \<open>EXCEPTION_DICT\<close>, entry by entry, in the order of the source.\<close>

definition EXCEPTION_DICT :: "(string \<times> (string \<times> string) list) list" where
  "EXCEPTION_DICT =
  [
   (''Response'',
     [(''101'', ''Response was not success''),
      (''102'', ''Response received is empty'')]),
   (''Commcell'',
     [(''101'', ''Commcell is not reachable. Please check the commcell name and services again''),
      (''102'', ''Authtoken not received. Please try again.''),
      (''103'', ''Failed to get the CommServ details''),
      (''104'', ''Failed to send an email to specified user'')]),
   (''CVPySDK'',
     [(''101'', ''Failed to Login with the credentials provided''),
      (''102'', ''''),
      (''103'', ''Reached the maximum attempts limit''),
      (''104'', ''This session has expired. Please login again''),
      (''105'', ''Script Type is not valid'')]),
   (''Client'',
     [(''101'', ''Data type of the input(s) is not valid''),
      (''102'', ''''),
      (''103'', ''Time Value should be greater than current time''),
      (''104'', ''Time Value entered is not of correct format''),
      (''105'', ''Script Type is not supported''),
      (''106'', ''Failed to get the instance''),
      (''107'', ''Service Restart timed out'')]),
   (''Agent'',
     [(''101'', ''Data type of the input(s) is not valid''),
      (''102'', ''''),
      (''103'', ''Time Value should be greater than current time''),
      (''104'', ''Time Value entered is not of correct format'')]),
   (''Backupset'',
     [(''101'', ''Data type of the input(s) is not valid''),
      (''102'', '''')]),
   (''Instance'',
     [(''101'', ''Data type of the input(s) is not valid''),
      (''102'', ''''),
      (''103'', ''Input date is incorrect''),
      (''104'', ''Instance Level Browse is not supported. Instance should have a single backupset'')]),
   (''Subclient'',
     [(''101'', ''Data type of the input(s) is not valid''),
      (''102'', ''''),
      (''103'', ''Backup Level not identified. Please check the backup level again''),
      (''104'', ''File/Folder(s) to restore list is empty''),
      (''105'', ''Type of client should either be the Client class instance or string''),
      (''106'', ''Input date is incorrect''),
      (''107'', ''End Date should be greater than the Start Date''),
      (''108'', ''Time Value should be greater than current time''),
      (''109'', ''Time Value entered is not of correct format''),
      (''110'', ''No data found at the path specified''),
      (''111'', ''No File/Folder matched the input value''),
      (''112'', ''Method Not Implemented''),
      (''113'', ''Type of instance should either be the Instance class instance or string''),
      (''114'', ''Type of backupset should either be the Backupset class instance or string'')]),
   (''Job'',
     [(''101'', ''Incorrect JobId''),
      (''102'', ''''),
      (''103'', ''No job exists with the specified Job ID''),
      (''104'', ''No records found for this Job'')]),
   (''Storage'',
     [(''101'', ''Data type of the input(s) is not valid''),
      (''102'', ''''),
      (''103'', ''Type of media agent should either be the MediaAgent class instance or string''),
      (''104'', ''Type of library should either be the DiskLibrary class instance or string''),
      (''105'', ''No storage policies exist for this user'')]),
   (''Schedules'',
     [(''101'', ''Invalid Class object passed as argument to the Schedules class''),
      (''102'', ''Data type of the input(s) is not valid'')]),
   (''ClientGroup'',
     [(''101'', ''Data type of the input(s) is not valid''),
      (''102'', ''''),
      (''103'', ''Time Value should be greater than current time''),
      (''104'', ''Time Value entered is not of correct format'')]),
   (''UserGroup'',
     [(''101'', ''Data type of the input(s) is not valid''),
      (''102'', '''')]),
   (''Domain'',
     [(''101'', ''Data type of the input(s) is not valid''),
      (''102'', '''')]),
   (''Alert'',
     [(''101'', ''Data type of the input(s) is not valid''),
      (''102'', '''')]),
   (''Workflow'',
     [(''101'', ''Data type of the input(s) is not valid''),
      (''102'', ''''),
      (''103'', ''Input is not valid XML / file path''),
      (''104'', ''No Workflow exists with the given name'')]),
   (''Datacube'',
     [(''101'', ''Data type of the input(s) is not valid''),
      (''102'', ''''),
      (''103'', ''Failed to get the list of analytics engines''),
      (''104'', ''Failed to get the datasources'')]),
   (''GlobalFilter'',
     [(''101'', ''Data type of the input(s) is not valid''),
      (''102'', '''')]),
   (''Plan'',
     [(''101'', ''Data type of the input(s) is not valid''),
      (''102'', '''')]),
   (''Salesforce'',
     [(''101'', ''Neither Sync Database enabled nor user provided database details for restore''),
      (''102'', '''')]),
   (''Metrics'',
     [(''101'', ''Invalid input(s) specified'')]),
   (''InternetOptions'',
     [(''101'', ''Invalid input(s) specified'')]),
   (''Virtual Machine'',
     [(''101'', ''Data type of the input(s) is not valid''),
      (''102'', '''')]),
   (''User'',
     [(''101'', ''Data type of input(s) is not valid''),
      (''102'', '''')]),
   (''Security'',
     [(''101'', ''Data type of input(s) is not valid''),
      (''102'', '''')]),
   (''DownloadCenter'',
     [(''101'', ''Response received is not a proper XML. Please check the XML''),
      (''102'', ''''),
      (''103'', ''Category does not exist at Download Center''),
      (''104'', ''Category already exists at Download Center''),
      (''105'', ''Sub Category already exists for the given Category at Download Center''),
      (''106'', ''Package does not exist at Download Center. Please check the name again''),
      (''107'', ''Failed to download the package''),
      (''108'', ''Category does not exists at Download Center''),
      (''109'', ''Sub Category does not exists at Download Center''),
      (''110'', ''Multiple platforms available. Please specify the platform''),
      (''111'', ''Multiple download types available for this platform. Please specify the download type''),
      (''112'', ''Package is not available for the given platform''),
      (''113'', ''Package is not available for the given download type''),
      (''114'', ''Package already exists with the given name''),
      (''115'', ''Version is not available on Download Center''),
      (''116'', ''Platform is not supported on Download Center''),
      (''117'', ''Download Type is not supported on Download Center''),
      (''118'', ''File is not a valid README file''),
      (''119'', ''Failed to upload the package'')]),
   (''Organization'',
     [(''101'', ''Data type of the input(s) is not valid''),
      (''102'', ''''),
      (''103'', ''No organization exists with the given name''),
      (''104'', ''Failed to delete the organization''),
      (''105'', ''Email address is not valid''),
      (''106'', ''Organization already exists''),
      (''107'', ''Failed to add organization''),
      (''108'', ''Failed to enable Auth Code Generation for the Organization''),
      (''109'', ''Failed to disable Auth Code Generation for the Organization''),
      (''110'', ''Failed to update the properties of the Organization''),
      (''111'', ''Plan is not associated with the organization. Add plan to the Organization, and then set it as the default'')]),
   (''StoragePool'',
     [(''101'', ''Data type of the input(s) is not valid''),
      (''102'', ''''),
      (''103'', ''No storage pool exists with the given name'')]),
   (''Monitoring'',
     [(''101'', ''Data type of the input(s) is not valid''),
      (''102'', '''')])]"

text \<open>
  A subscription \<open>d[k]\<close> of a dictionary with string keys: the stored value, or
  \<open>KeyError(k)\<close>.
\<close>

definition dict_getitem :: "(string \<times> 'v) list \<Rightarrow> string \<Rightarrow> py_error + 'v" where
  "dict_getitem d k = (case map_of d k of None \<Rightarrow> Inl (KeyError (PStr k)) | Some v \<Rightarrow> Inr v)"

text \<open>\<open>sep.join(xs)\<close> on a list of strings.\<close>

fun join :: "string \<Rightarrow> string list \<Rightarrow> string" where
  "join sep [] = []"
| "join sep [x] = x"
| "join sep (x # y # ys) = x @ sep @ join sep (y # ys)"

text \<open>
  The double subscription \<open>EXCEPTION_DICT[exception_module][exception_id]\<close> of
  \<open>SDKException.__init__\<close>.  It is unguarded: a missing module raises \<open>KeyError\<close> with
  the module name, a missing id of a known module raises \<open>KeyError\<close> with the id.
\<close>

definition lookup_message :: "string \<Rightarrow> string \<Rightarrow> py_error + string" where
  "lookup_message m i =
     (case dict_getitem EXCEPTION_DICT m of
        Inl e \<Rightarrow> Inl e
      | Inr codes \<Rightarrow> dict_getitem codes i)"

text \<open>
  \<open>SDKException.__init__(self, exception_module, exception_id, exception_message="")\<close>.
  When the lookup raises, the constructor is left with that \<open>KeyError\<close> and no exception
  object is built.  An empty string is falsy, so the two \<open>if\<close>s test for non-emptiness.
\<close>

definition SDKException_init :: "string \<Rightarrow> string \<Rightarrow> string \<Rightarrow> py_error + SDKException" where
  "SDKException_init m i msg =
     (case lookup_message m i of
        Inl e \<Rightarrow> Inl e
      | Inr base \<Rightarrow>
          Inr \<lparr>exception_module = m, exception_id = i,
               exception_message =
                 (if msg \<noteq> [] then
                    (if base \<noteq> [] then join [CHR 0x0A] [base, msg] else msg)
                  else base)\<rparr>)"

text \<open>
  The statement \<open>raise SDKException(m, i, msg)\<close>: the constructor runs first; what
  propagates is the constructor's own failure if it has one, the SDK exception otherwise.
\<close>

definition raise_SDKException :: "string \<Rightarrow> string \<Rightarrow> string \<Rightarrow> py_error" where
  "raise_SDKException m i msg =
     (case SDKException_init m i msg of Inl e \<Rightarrow> e | Inr x \<Rightarrow> SDKError x)"

section \<open>Operations of the interpreter used by vsinstance.py\<close>

text \<open>
  \<open>k in x\<close> for a string \<open>k\<close>: key membership for a dictionary, element membership for
  a list (a string equals only an equal string), substring test for a string; the other
  values are no containers and the test raises \<open>TypeError\<close>.
\<close>

fun py_contains_str :: "pyval \<Rightarrow> string \<Rightarrow> py_error + bool" where
  "py_contains_str (PDict d) k = Inr (k \<in> set (map fst d))"
| "py_contains_str (PList xs) k = Inr (PStr k \<in> set xs)"
| "py_contains_str (PStr s) k = Inr (sublist k s)"
| "py_contains_str _ k = Inl TypeError"

text \<open>
  \<open>x[k]\<close> for a string \<open>k\<close>: only a dictionary can be subscripted by a string; a
  list, a string or \<open>None\<close> raises \<open>TypeError\<close>.
\<close>

fun py_getitem_str :: "pyval \<Rightarrow> string \<Rightarrow> py_error + pyval" where
  "py_getitem_str (PDict d) k = dict_getitem d k"
| "py_getitem_str _ k = Inl TypeError"

text \<open>
  \<open>x[i]\<close> for an integer \<open>i\<close>: a negative index counts from the end; out of range is
  \<open>IndexError\<close>.  The dictionaries here have string keys only, so an integer is a missing
  key.
\<close>

definition seq_getitem :: "'a list \<Rightarrow> int \<Rightarrow> py_error + 'a" where
  "seq_getitem xs i =
     (if 0 \<le> i \<and> i < int (length xs) then Inr (xs ! nat i)
      else if i < 0 \<and> - int (length xs) \<le> i then Inr (xs ! nat (int (length xs) + i))
      else Inl IndexError)"

fun py_getitem_int :: "pyval \<Rightarrow> int \<Rightarrow> py_error + pyval" where
  "py_getitem_int (PList xs) i = seq_getitem xs i"
| "py_getitem_int (PStr s) i =
     (case seq_getitem s i of Inl e \<Rightarrow> Inl e | Inr c \<Rightarrow> Inr (PStr [c]))"
| "py_getitem_int (PDict d) i = Inl (KeyError (PInt i))"
| "py_getitem_int _ i = Inl TypeError"

text \<open>
  The elements a \<open>for\<close> loop visits: the elements of a list, the keys of a dictionary,
  the characters of a string; the other values are not iterable.
\<close>

fun py_iter :: "pyval \<Rightarrow> py_error + pyval list" where
  "py_iter (PList xs) = Inr xs"
| "py_iter (PDict d) = Inr (map (\<lambda>kv. PStr (fst kv)) d)"
| "py_iter (PStr s) = Inr (map (\<lambda>c. PStr [c]) s)"
| "py_iter _ = Inl TypeError"

text \<open>\<open>isinstance(x, str)\<close> (Python 3: \<open>bool\<close> and \<open>int\<close> are not \<open>str\<close>).\<close>

fun is_str :: "pyval \<Rightarrow> bool" where
  "is_str (PStr s) = True"
| "is_str _ = False"

text \<open>
  \<open>d[k] = v\<close>: an existing key keeps its place and takes the new value, a new key goes
  to the end.
\<close>

fun dict_setitem :: "(string \<times> 'v) list \<Rightarrow> string \<Rightarrow> 'v \<Rightarrow> (string \<times> 'v) list" where
  "dict_setitem [] k v = [(k, v)]"
| "dict_setitem (p # ps) k v = (if fst p = k then (k, v) # ps else p # dict_setitem ps k v)"

text \<open>Every dictionary key that occurs anywhere inside a value.\<close>

primrec all_keys :: "pyval \<Rightarrow> string list" where
  "all_keys PNone = []"
| "all_keys (PBool b) = []"
| "all_keys (PInt i) = []"
| "all_keys (PStr s) = []"
| "all_keys (PList xs) = concat (map all_keys xs)"
| "all_keys (PDict d) = concat (map (\<lambda>kv. fst kv # snd kv) (map (map_prod id all_keys) d))"

text \<open>
  \<open>str.lower()\<close> on ASCII text: the letters \<open>A\<close> to \<open>Z\<close> move to \<open>a\<close> to \<open>z\<close>, every
  other character stays.
\<close>

definition lower_char :: "char \<Rightarrow> char" where
  "lower_char c =
     (case map_of (zip ''ABCDEFGHIJKLMNOPQRSTUVWXYZ'' ''abcdefghijklmnopqrstuvwxyz'') c of
        Some l \<Rightarrow> l
      | None \<Rightarrow> c)"

definition lower :: "string \<Rightarrow> string" where
  "lower s = map lower_char s"

section \<open>vsinstance.py: construction dispatch\<close>

text \<open>
  The enumeration \<open>constants.hypervisor_type\<close> is imported by \<open>vsinstance.py\<close> but its
  module is not among the source files; the five members \<open>__new__\<close> reads are taken as
  a parameter, each field holding the member's \<open>.value\<close>.
\<close>

record hypervisor_type =
  VIRTUAL_CENTER :: string
  MS_VIRTUAL_SERVER :: string
  AMAZON :: string
  AZURE :: string
  AZURE_V2 :: string

text \<open>The concrete classes \<open>__new__\<close> can allocate.\<close>

datatype instance_class =
    VMwareInstance
  | HyperVInstance
  | AmazonInstance
  | AzureInstance
  | AzureRMInstance

text \<open>
  \<open>VirtualServerInstance.__new__(cls, agent_object, instance_name, instance_id=None)\<close>.
  Each branch compares \<open>instance_name\<close>, as given, with the lower-cased value of one
  member.  The chain has no \<open>else\<close>: when no branch matches the method runs off its end
  and returns \<open>None\<close>, which is then the value of the constructor call (no exception,
  and \<open>__init__\<close> does not run).  \<open>None\<close> of the option type stands for that.
\<close>

definition VirtualServerInstance_new :: "hypervisor_type \<Rightarrow> string \<Rightarrow> instance_class option" where
  "VirtualServerInstance_new hv_type instance_name =
     (if instance_name = lower (VIRTUAL_CENTER hv_type) then Some VMwareInstance
      else if instance_name = lower (MS_VIRTUAL_SERVER hv_type) then Some HyperVInstance
      else if instance_name = lower (AMAZON hv_type) then Some AmazonInstance
      else if instance_name = lower (AZURE hv_type) then Some AzureInstance
      else if instance_name = lower (AZURE_V2 hv_type) then Some AzureRMInstance
      else None)"

section \<open>vsinstance.py: the instance object and its collaborators\<close>

text \<open>
  The state one \<open>VirtualServerInstance\<close> object works on.  The fields \<open>self_...\<close> are the
  attributes the methods of \<open>vsinstance.py\<close> read and write (the source spells one of them
  \<open>_asscociatedclients\<close>); \<open>self_virtualserverinstance\<close> is \<open>None\<close> while the attribute has
  not been assigned.  The other fields stand for what lies behind \<open>self._commcell_object\<close>
  and the base class, none of which is among the source files:
  \<^item> \<open>has_client\<close>, \<open>has_clientgroup\<close>: the two existence lookups, taken as parameters;
  \<^item> \<open>server_properties\<close>: the properties document the server holds for this instance;
  \<^item> \<open>server_success\<close>: whether the server answers a request with success;
  \<^item> \<open>server_submissions\<close>: the property updates submitted so far, oldest first.
\<close>

record VirtualServerInstance =
  has_client :: "pyval \<Rightarrow> bool"
  has_clientgroup :: "pyval \<Rightarrow> bool"
  server_properties :: pyval
  server_success :: bool
  server_submissions :: "(string \<times> pyval) list"
  self_properties :: pyval
  self_virtualserverinstance :: "pyval option"
  self_vsinstancetype :: pyval
  self_asscociatedclients :: pyval
  self_associated_clients :: "pyval list"

text \<open>
  A method either returns a value or raises; either way it leaves the object in a state,
  which after a \<open>raise\<close> holds the assignments made before it.
\<close>

type_synonym 'a result = "(py_error + 'a) \<times> VirtualServerInstance"

text \<open>
  Modelled from the spec: \<open>Instance._get_instance_properties\<close> of the base class, which
  \<open>vsinstance.py\<close> calls through \<open>super\<close> and which is not among the source files.  The
  spec gives it as the collaborator \<open>fetch_properties(entityRef) -> propertiesDocument\<close>
  that fills the generic instance fields; the docstring of the overriding method adds that
  it raises \<open>SDKException\<close> when the response is not success.
\<close>

definition Instance_get_instance_properties :: "VirtualServerInstance \<Rightarrow> unit result" where
  "Instance_get_instance_properties self =
     (if server_success self then (Inr (), self\<lparr>self_properties := server_properties self\<rparr>)
      else (Inl (raise_SDKException ''Response'' ''101'' ''''), self))"

text \<open>
  Modelled from the spec: the value at the nested path
  \<open>virtualServerInstance.associatedClients\<close> of a properties document is replaced; a
  missing level is created.
\<close>

definition put_associated_clients :: "pyval \<Rightarrow> pyval \<Rightarrow> pyval" where
  "put_associated_clients doc v =
     (case doc of
        PDict d \<Rightarrow>
          (case map_of d ''virtualServerInstance'' of
             Some (PDict vsi) \<Rightarrow>
               PDict (dict_setitem d ''virtualServerInstance''
                        (PDict (dict_setitem vsi ''associatedClients'' v)))
           | _ \<Rightarrow>
               PDict (dict_setitem d ''virtualServerInstance'' (PDict [(''associatedClients'', v)])))
      | _ \<Rightarrow> PDict [(''virtualServerInstance'', PDict [(''associatedClients'', v)])])"

text \<open>The attribute path the setter passes to the base class.\<close>

definition associated_clients_path :: string where
  "associated_clients_path = ''_virtualserverinstance['associatedClients']''"

text \<open>
  Modelled from the spec: \<open>Instance._set_instance_properties(attr_name, value)\<close> of the base
  class, not among the source files.  The spec gives it as the collaborator
  \<open>submit_property_update(entityRef, path, value) -> success/failure\<close>: the value is
  submitted to the server as a partial property update addressed at the nested path
  \<open>virtualServerInstance.associatedClients\<close>, and the change is durable once the server
  acknowledges it.  The properties held by the object stay as they were (the spec: stale
  until explicitly fetched).  A failure is surfaced as an \<open>SDKException\<close> (the setter's
  docstring: if response is not success).
\<close>

definition Instance_set_instance_properties ::
    "VirtualServerInstance \<Rightarrow> string \<Rightarrow> pyval \<Rightarrow> unit result" where
  "Instance_set_instance_properties self attr_name v =
     (let sent = self\<lparr>server_submissions := server_submissions self @ [(attr_name, v)]\<rparr> in
      if server_success self then
        (Inr (),
         if attr_name = associated_clients_path
         then sent\<lparr>server_properties := put_associated_clients (server_properties self) v\<rparr>
         else sent)
      else (Inl (raise_SDKException ''Response'' ''101'' ''''), sent))"

section \<open>vsinstance.py: the methods\<close>

text \<open>
  \<open>VirtualServerInstance._get_instance_properties(self)\<close>: the base class fetches, the two
  attributes are reset to \<open>None\<close>, and only when the fetched document has the key
  \<open>virtualServerInstance\<close> are the three attributes projected out of it; each subscription
  can raise.
\<close>

definition get_instance_properties :: "VirtualServerInstance \<Rightarrow> unit result" where
  "get_instance_properties self =
     (case Instance_get_instance_properties self of
        (Inl e, s0) \<Rightarrow> (Inl e, s0)
      | (Inr _, s0) \<Rightarrow>
          (let s1 = s0\<lparr>self_vsinstancetype := PNone, self_asscociatedclients := PNone\<rparr> in
           case py_contains_str (self_properties s1) ''virtualServerInstance'' of
             Inl e \<Rightarrow> (Inl e, s1)
           | Inr False \<Rightarrow> (Inr (), s1)
           | Inr True \<Rightarrow>
               (case py_getitem_str (self_properties s1) ''virtualServerInstance'' of
                  Inl e \<Rightarrow> (Inl e, s1)
                | Inr vsi \<Rightarrow>
                    (let s2 = s1\<lparr>self_virtualserverinstance := Some vsi\<rparr> in
                     case py_getitem_str vsi ''vsInstanceType'' of
                       Inl e \<Rightarrow> (Inl e, s2)
                     | Inr t \<Rightarrow>
                         (let s3 = s2\<lparr>self_vsinstancetype := t\<rparr> in
                          case py_getitem_str vsi ''associatedClients'' of
                            Inl e \<Rightarrow> (Inl e, s3)
                          | Inr a \<Rightarrow> (Inr (), s3\<lparr>self_asscociatedclients := a\<rparr>))))))"

text \<open>
  The getter \<open>associated_clients\<close>.  The loop appends \<open>client["client"]["clientName"]\<close>
  for every member server; the \<open>return\<close> stands inside the \<open>if\<close>, so without the key
  \<open>memberServers\<close> the getter returns \<open>None\<close>.
\<close>

fun associated_clients_loop :: "pyval list \<Rightarrow> VirtualServerInstance \<Rightarrow> pyval result" where
  "associated_clients_loop [] self = (Inr (PList (self_associated_clients self)), self)"
| "associated_clients_loop (client # rest) self =
     (case py_getitem_str client ''client'' of
        Inl e \<Rightarrow> (Inl e, self)
      | Inr c \<Rightarrow>
          (case py_getitem_str c ''clientName'' of
             Inl e \<Rightarrow> (Inl e, self)
           | Inr n \<Rightarrow>
               associated_clients_loop rest
                 (self\<lparr>self_associated_clients := self_associated_clients self @ [n]\<rparr>)))"

definition associated_clients :: "VirtualServerInstance \<Rightarrow> pyval result" where
  "associated_clients self =
     (let s1 = self\<lparr>self_associated_clients := []\<rparr> in
      case py_contains_str (self_asscociatedclients s1) ''memberServers'' of
        Inl e \<Rightarrow> (Inl e, s1)
      | Inr False \<Rightarrow> (Inr PNone, s1)
      | Inr True \<Rightarrow>
          (case py_getitem_str (self_asscociatedclients s1) ''memberServers'' of
             Inl e \<Rightarrow> (Inl e, s1)
           | Inr ms \<Rightarrow>
               (case py_iter ms of
                  Inl e \<Rightarrow> (Inl e, s1)
                | Inr clients \<Rightarrow> associated_clients_loop clients s1)))"

text \<open>
  The setter \<open>associated_clients\<close>, first loop: the first entry that is not a \<open>str\<close>
  ends the setter with \<open>raise SDKException('Instance', '105')\<close>.
\<close>

fun check_clients_list :: "pyval list \<Rightarrow> py_error option" where
  "check_clients_list [] = None"
| "check_clients_list (client_name # rest) =
     (if \<not> is_str client_name then Some (raise_SDKException ''Instance'' ''105'' '''')
      else check_clients_list rest)"

text \<open>The dictionary literal \<open>common_json\<close> of the second loop.\<close>

definition common_json :: "(string \<times> pyval) list" where
  "common_json =
     [(''srmReportSet'', PInt 0),
      (''type'', PInt 0),
      (''srmReportType'', PInt 0),
      (''clientSidePackage'', PBool True),
      (''_type_'', PInt 28),
      (''consumeLicense'', PBool True)]"

text \<open>
  The setter, second loop, with \<open>client_json_list\<close> as the accumulator.  Every round
  builds \<open>client_json\<close> and \<open>client_group_json\<close> and uses neither; the branch for a
  client and the branch for a client group run the same two assignments.
\<close>

fun member_servers_loop ::
    "VirtualServerInstance \<Rightarrow> pyval list \<Rightarrow> pyval list \<Rightarrow> py_error + pyval list" where
  "member_servers_loop self [] client_json_list = Inr client_json_list"
| "member_servers_loop self (client_name # rest) client_json_list =
     (let client_json = [(''clientName'', client_name)];
          client_group_json = [(''clientGroupName'', client_name)];
          final_json = []
      in
        if has_client self client_name then
          member_servers_loop self rest
            (client_json_list @
               [PDict (dict_setitem final_json ''client''
                         (PDict (dict_setitem common_json ''clientName'' client_name)))])
        else if has_clientgroup self client_name then
          member_servers_loop self rest
            (client_json_list @
               [PDict (dict_setitem final_json ''client''
                         (PDict (dict_setitem common_json ''clientName'' client_name)))])
        else Inl (raise_SDKException ''Instance'' ''105'' ''''))"

text \<open>
  The setter as a whole: both loops, then the one call of the base class with the new
  \<open>associatedClients\<close> dictionary.  Nothing of the object is assigned before that call.
\<close>

definition associated_clients_setter :: "VirtualServerInstance \<Rightarrow> pyval list \<Rightarrow> unit result" where
  "associated_clients_setter self clients_list =
     (case check_clients_list clients_list of
        Some e \<Rightarrow> (Inl e, self)
      | None \<Rightarrow>
          (case member_servers_loop self clients_list [] of
             Inl e \<Rightarrow> (Inl e, self)
           | Inr client_json_list \<Rightarrow>
               Instance_set_instance_properties self associated_clients_path
                 (PDict [(''memberServers'', PList client_json_list)])))"

text \<open>
  The getter \<open>co_ordinator\<close>: the value of the getter \<open>associated_clients\<close> is
  subscripted with the string \<open>'Clients'\<close> and the result with \<open>0\<close>.
\<close>

definition co_ordinator :: "VirtualServerInstance \<Rightarrow> pyval result" where
  "co_ordinator self =
     (case associated_clients self of
        (Inl e, s1) \<Rightarrow> (Inl e, s1)
      | (Inr r, s1) \<Rightarrow>
          (case py_getitem_str r ''Clients'' of
             Inl e \<Rightarrow> (Inl e, s1)
           | Inr c \<Rightarrow>
               (case py_getitem_int c 0 of
                  Inl e \<Rightarrow> (Inl e, s1)
                | Inr x \<Rightarrow> (Inr x, s1))))"

section \<open>Auxiliary notions for the statements\<close>

text \<open>An upper-case ASCII letter.\<close>

definition is_upper :: "char \<Rightarrow> bool" where
  "is_upper c = (c \<in> set ''ABCDEFGHIJKLMNOPQRSTUVWXYZ'')"

text \<open>
  The member-server descriptor of a client named \<open>n\<close>, in the layout of the external
  interface: keyed \<open>client\<close>, holding the fixed default fields and \<open>clientName\<close>.
\<close>

definition member_server :: "pyval \<Rightarrow> pyval" where
  "member_server n =
     PDict [(''client'',
             PDict [(''srmReportSet'', PInt 0),
                    (''type'', PInt 0),
                    (''srmReportType'', PInt 0),
                    (''clientSidePackage'', PBool True),
                    (''_type_'', PInt 28),
                    (''consumeLicense'', PBool True),
                    (''clientName'', n)])]"


text \<open>
  Sample data for concrete evaluations.  The values of \<open>constants.hypervisor_type\<close> are
  not in the source files; the spec names only \<open>virtualcenter\<close> (in any case) for the
  VMware family, the other four stand for the vendor-specific members.
\<close>

definition sample_hypervisor_type :: hypervisor_type where
  "sample_hypervisor_type =
     \<lparr>VIRTUAL_CENTER = ''VirtualCenter'',
      MS_VIRTUAL_SERVER = ''Hyper-V'',
      AMAZON = ''Amazon'',
      AZURE = ''Azure'',
      AZURE_V2 = ''Azure Resource Manager''\<rparr>"

definition sample_document :: pyval where
  "sample_document =
     PDict [(''instance'', PDict [(''instanceName'', PStr ''virtualcenter'')]),
            (''virtualServerInstance'',
             PDict [(''vsInstanceType'', PInt 1),
                    (''associatedClients'',
                     PDict [(''memberServers'',
                             PList [PDict [(''client'',
                                            PDict [(''clientName'', PStr ''proxy0'')])]])])])]"

text \<open>
  An instance whose server knows the clients \<open>proxy1\<close> and \<open>proxy2\<close> and the client group
  \<open>proxies\<close>, holds \<open>sample_document\<close> and answers with success; \<open>sample_instance\<close> is that
  instance after its properties have been fetched.
\<close>

definition sample_unloaded :: VirtualServerInstance where
  "sample_unloaded =
     \<lparr>has_client = (\<lambda>x. x = PStr ''proxy1'' \<or> x = PStr ''proxy2''),
      has_clientgroup = (\<lambda>x. x = PStr ''proxies''),
      server_properties = sample_document,
      server_success = True,
      server_submissions = [],
      self_properties = PNone,
      self_virtualserverinstance = None,
      self_vsinstancetype = PNone,
      self_asscociatedclients = PNone,
      self_associated_clients = []\<rparr>"

definition sample_instance :: VirtualServerInstance where
  "sample_instance = snd (get_instance_properties sample_unloaded)"

section \<open>The error catalog and the exception constructor\<close>

lemma EXCEPTION_DICT_distinct: "distinct (map fst EXCEPTION_DICT)"
  unfolding EXCEPTION_DICT_def by simp

lemma EXCEPTION_DICT_codes_distinct:
  "(m, codes) \<in> set EXCEPTION_DICT \<Longrightarrow> distinct (map fst codes)"
  unfolding EXCEPTION_DICT_def by auto

lemma dict_getitem_present:
  "distinct (map fst d) \<Longrightarrow> (k, v) \<in> set d \<Longrightarrow> dict_getitem d k = Inr v"
  by (simp add: dict_getitem_def)

lemma dict_getitem_absent:
  assumes "k \<notin> fst ` set d"
  shows "dict_getitem d k = Inl (KeyError (PStr k))"
proof -
  have "map_of d k = None"
    using assms by (simp add: map_of_eq_None_iff)
  then show ?thesis
    by (simp add: dict_getitem_def)
qed

lemma lookup_message_present:
  assumes "(m, codes) \<in> set EXCEPTION_DICT" and "(i, base) \<in> set codes"
  shows "lookup_message m i = Inr base"
proof -
  have 1: "dict_getitem EXCEPTION_DICT m = Inr codes"
    using assms(1) EXCEPTION_DICT_distinct by (rule dict_getitem_present[rotated])
  have 2: "dict_getitem codes i = Inr base"
    using EXCEPTION_DICT_codes_distinct[OF assms(1)] assms(2) by (rule dict_getitem_present)
  show ?thesis
    by (simp add: lookup_message_def 1 2)
qed

lemma lookup_message_unknown_module:
  assumes "m \<notin> fst ` set EXCEPTION_DICT"
  shows "lookup_message m i = Inl (KeyError (PStr m))"
  by (simp add: lookup_message_def dict_getitem_absent[OF assms])

lemma lookup_message_unknown_code:
  assumes "(m, codes) \<in> set EXCEPTION_DICT" and "i \<notin> fst ` set codes"
  shows "lookup_message m i = Inl (KeyError (PStr i))"
proof -
  have 1: "dict_getitem EXCEPTION_DICT m = Inr codes"
    using assms(1) EXCEPTION_DICT_distinct by (rule dict_getitem_present[rotated])
  show ?thesis
    by (simp add: lookup_message_def 1 dict_getitem_absent[OF assms(2)])
qed

lemma SDKException_init_present:
  assumes "(m, codes) \<in> set EXCEPTION_DICT" and "(i, base) \<in> set codes"
  shows "SDKException_init m i msg =
           Inr \<lparr>exception_module = m, exception_id = i,
                exception_message =
                  (if msg = [] then base else if base = [] then msg else base @ [CHR 0x0A] @ msg)\<rparr>"
  by (simp add: SDKException_init_def lookup_message_present[OF assms])

lemma Instance_codes:
  "(''Instance'', codes) \<in> set EXCEPTION_DICT \<Longrightarrow>
     map fst codes = [''101'', ''102'', ''103'', ''104'']"
  unfolding EXCEPTION_DICT_def by auto

lemma raise_Instance_105: "raise_SDKException ''Instance'' ''105'' msg = KeyError (PStr ''105'')"
  by (simp add: raise_SDKException_def SDKException_init_def lookup_message_def
      dict_getitem_def EXCEPTION_DICT_def)

text \<open>
  C7.  For every (module, code) pair of the catalog and every detail string the message
  of the constructed exception follows the resolution rule: a non-empty base message and
  a non-empty detail are joined by a newline; with an empty base message the detail is
  the whole message; without a detail (the default, the empty string) the message is the
  base message.  For \<open>('Job', '101')\<close> with the detail \<open>extra\<close> the message is
  \<open>Incorrect JobId\<close>, a newline, \<open>extra\<close>.
\<close>

theorem SDKException_message_composition:
  assumes "(m, codes) \<in> set EXCEPTION_DICT" and "(i, base) \<in> set codes"
  shows "(base \<noteq> [] \<and> detail \<noteq> [] \<longrightarrow>
            SDKException_init m i detail =
              Inr \<lparr>exception_module = m, exception_id = i,
                   exception_message = base @ [CHR 0x0A] @ detail\<rparr>) \<and>
         (base = [] \<and> detail \<noteq> [] \<longrightarrow>
            SDKException_init m i detail =
              Inr \<lparr>exception_module = m, exception_id = i, exception_message = detail\<rparr>) \<and>
         (detail = [] \<longrightarrow>
            SDKException_init m i detail =
              Inr \<lparr>exception_module = m, exception_id = i, exception_message = base\<rparr>) \<and>
         SDKException_init ''Job'' ''101'' ''extra'' =
           Inr \<lparr>exception_module = ''Job'', exception_id = ''101'',
                exception_message = ''Incorrect JobId'' @ [CHR 0x0A] @ ''extra''\<rparr>"
proof -
  have example: "SDKException_init ''Job'' ''101'' ''extra'' =
           Inr \<lparr>exception_module = ''Job'', exception_id = ''101'',
                exception_message = ''Incorrect JobId'' @ [CHR 0x0A] @ ''extra''\<rparr>"
    by (simp add: SDKException_init_def lookup_message_def dict_getitem_def EXCEPTION_DICT_def)
  show ?thesis
    using example by (simp add: SDKException_init_present[OF assms])
qed

theorem SDKException_message_composition_witness:
  "(''Schedules'',
      [(''101'', ''Invalid Class object passed as argument to the Schedules class''),
       (''102'', ''Data type of the input(s) is not valid'')]) \<in> set EXCEPTION_DICT \<and>
   SDKException_init ''Schedules'' ''102'' ''got int'' =
     Inr \<lparr>exception_module = ''Schedules'', exception_id = ''102'',
          exception_message = ''Data type of the input(s) is not valid'' @ [CHR 0x0A] @ ''got int''\<rparr>"
proof -
  have h: "(''Schedules'',
      [(''101'', ''Invalid Class object passed as argument to the Schedules class''),
       (''102'', ''Data type of the input(s) is not valid'')]) \<in> set EXCEPTION_DICT"
    by (simp add: EXCEPTION_DICT_def)
  have c: "(''102'', ''Data type of the input(s) is not valid'') \<in>
      set [(''101'', ''Invalid Class object passed as argument to the Schedules class''),
           (''102'', ''Data type of the input(s) is not valid'')]"
    by simp
  show ?thesis
    using h SDKException_message_composition[OF h c, of "''got int''"] by simp
qed

text \<open>
  C8.  For every (module, code) pair of the catalog the lookup returns exactly the
  stored string, and so does the exception built without a detail; \<open>('Response', '101')\<close>
  gives \<open>Response was not success\<close>.  For a module that is not in the catalog the lookup,
  and with it the constructor, fails with the \<open>KeyError\<close> that carries the module name
  (the unknown-module failure); for a known module and a code it does not have, with the
  \<open>KeyError\<close> that carries the code (the unknown-code failure).
\<close>

theorem lookup_message_resolution:
  "((m, codes) \<in> set EXCEPTION_DICT \<and> (i, base) \<in> set codes \<longrightarrow>
      lookup_message m i = Inr base \<and>
      SDKException_init m i [] =
        Inr \<lparr>exception_module = m, exception_id = i, exception_message = base\<rparr>) \<and>
   lookup_message ''Response'' ''101'' = Inr ''Response was not success'' \<and>
   (m \<notin> fst ` set EXCEPTION_DICT \<longrightarrow>
      lookup_message m i = Inl (KeyError (PStr m)) \<and>
      SDKException_init m i detail = Inl (KeyError (PStr m))) \<and>
   ((m, codes) \<in> set EXCEPTION_DICT \<and> i \<notin> fst ` set codes \<longrightarrow>
      lookup_message m i = Inl (KeyError (PStr i)) \<and>
      SDKException_init m i detail = Inl (KeyError (PStr i)))"
proof -
  have present: "(m, codes) \<in> set EXCEPTION_DICT \<and> (i, base) \<in> set codes \<longrightarrow>
      lookup_message m i = Inr base \<and>
      SDKException_init m i [] =
        Inr \<lparr>exception_module = m, exception_id = i, exception_message = base\<rparr>"
  proof (intro impI)
    assume "(m, codes) \<in> set EXCEPTION_DICT \<and> (i, base) \<in> set codes"
    then have 1: "(m, codes) \<in> set EXCEPTION_DICT" and 2: "(i, base) \<in> set codes"
      by simp_all
    show "lookup_message m i = Inr base \<and>
      SDKException_init m i [] =
        Inr \<lparr>exception_module = m, exception_id = i, exception_message = base\<rparr>"
      using lookup_message_present[OF 1 2] SDKException_init_present[OF 1 2, of "[]"]
      by simp
  qed
  have example: "lookup_message ''Response'' ''101'' = Inr ''Response was not success''"
    by (simp add: lookup_message_def dict_getitem_def EXCEPTION_DICT_def)
  have no_module: "m \<notin> fst ` set EXCEPTION_DICT \<longrightarrow>
      lookup_message m i = Inl (KeyError (PStr m)) \<and>
      SDKException_init m i detail = Inl (KeyError (PStr m))"
    by (simp add: SDKException_init_def lookup_message_unknown_module)
  have no_code: "(m, codes) \<in> set EXCEPTION_DICT \<and> i \<notin> fst ` set codes \<longrightarrow>
      lookup_message m i = Inl (KeyError (PStr i)) \<and>
      SDKException_init m i detail = Inl (KeyError (PStr i))"
  proof (intro impI)
    assume "(m, codes) \<in> set EXCEPTION_DICT \<and> i \<notin> fst ` set codes"
    then have "lookup_message m i = Inl (KeyError (PStr i))"
      by (simp add: lookup_message_unknown_code[of m codes i])
    then show "lookup_message m i = Inl (KeyError (PStr i)) \<and>
      SDKException_init m i detail = Inl (KeyError (PStr i))"
      by (simp add: SDKException_init_def)
  qed
  from present example no_module no_code show ?thesis
    by blast
qed

theorem lookup_message_resolution_witness:
  "lookup_message ''Metrics'' ''101'' = Inr ''Invalid input(s) specified'' \<and>
   SDKException_init ''Metrics'' ''101'' [] =
     Inr \<lparr>exception_module = ''Metrics'', exception_id = ''101'',
          exception_message = ''Invalid input(s) specified''\<rparr> \<and>
   lookup_message ''Metric'' ''101'' = Inl (KeyError (PStr ''Metric'')) \<and>
   SDKException_init ''Metric'' ''101'' ''x'' = Inl (KeyError (PStr ''Metric'')) \<and>
   lookup_message ''Metrics'' ''102'' = Inl (KeyError (PStr ''102'')) \<and>
   SDKException_init ''Metrics'' ''102'' ''x'' = Inl (KeyError (PStr ''102''))"
proof -
  have h: "(''Metrics'', [(''101'', ''Invalid input(s) specified'')]) \<in> set EXCEPTION_DICT"
    by (simp add: EXCEPTION_DICT_def)
  have a: "''Metric'' \<notin> fst ` set EXCEPTION_DICT"
    by (simp add: EXCEPTION_DICT_def)
  show ?thesis
    using h a
      lookup_message_resolution[of "''Metrics''" "[(''101'', ''Invalid input(s) specified'')]"
        "''101''" "''Invalid input(s) specified''" "''x''"]
      lookup_message_resolution[of "''Metric''" "[]" "''101''" "[]" "''x''"]
      lookup_message_resolution[of "''Metrics''" "[(''101'', ''Invalid input(s) specified'')]"
        "''102''" "[]" "''x''"]
    by simp
qed

section \<open>Construction dispatch\<close>

lemma lower_char_not_upper: "\<not> is_upper (lower_char c)"
  by (auto simp: lower_char_def is_upper_def)

lemma lower_no_upper: "c \<in> set (lower s) \<Longrightarrow> \<not> is_upper c"
  by (auto simp: lower_def lower_char_not_upper)

lemma upper_name_not_lower: "\<exists>c \<in> set name. is_upper c \<Longrightarrow> name \<noteq> lower s"
  using lower_no_upper by blast

text \<open>
  C1, as stated, fails on the code.  The name \<open>VirtualCenter\<close> equals \<open>virtualcenter\<close>
  under case folding, yet \<open>__new__\<close> selects no class for it: the method lower-cases the
  constant and compares the name as it was given.  The constants are spelled out in the
  statement; no lower-cased value can equal a name with an upper-case letter, so the
  outcome is the same for any other values.
\<close>

theorem dispatch_case_folding_counterexample:
  "lower ''VirtualCenter'' = ''virtualcenter'' \<and>
   VirtualServerInstance_new
     \<lparr>VIRTUAL_CENTER = ''VirtualCenter'', MS_VIRTUAL_SERVER = ''Hyper-V'', AMAZON = ''Amazon'',
      AZURE = ''Azure'', AZURE_V2 = ''Azure Resource Manager''\<rparr>
     ''VirtualCenter'' = None"
  by (simp add: VirtualServerInstance_new_def lower_def lower_char_def)

text \<open>
  C1, amended.  \<open>__new__\<close> compares \<open>instance_name\<close>, without folding its case, for exact
  equality with the lower-cased value of each of the five discriminators, in the fixed
  order \<open>VIRTUAL_CENTER\<close>, \<open>MS_VIRTUAL_SERVER\<close>, \<open>AMAZON\<close>, \<open>AZURE\<close>, \<open>AZURE_V2\<close>; the first
  match wins (\<open>map_of\<close> returns the first entry with the key).  A name equal to the
  lower-cased value of \<open>VIRTUAL_CENTER\<close>, so \<open>virtualcenter\<close> when that is the value in
  lower case, selects the VMware class; a name with an upper-case letter selects none.
\<close>

theorem dispatch_exact_match:
  "VirtualServerInstance_new hv name =
     map_of [(lower (VIRTUAL_CENTER hv), VMwareInstance),
             (lower (MS_VIRTUAL_SERVER hv), HyperVInstance),
             (lower (AMAZON hv), AmazonInstance),
             (lower (AZURE hv), AzureInstance),
             (lower (AZURE_V2 hv), AzureRMInstance)] name \<and>
   VirtualServerInstance_new hv (lower (VIRTUAL_CENTER hv)) = Some VMwareInstance \<and>
   (lower (VIRTUAL_CENTER hv) = ''virtualcenter'' \<longrightarrow>
      VirtualServerInstance_new hv ''virtualcenter'' = Some VMwareInstance) \<and>
   ((\<exists>c \<in> set name. is_upper c) \<longrightarrow> VirtualServerInstance_new hv name = None)"
proof -
  have first_match: "VirtualServerInstance_new hv name =
     map_of [(lower (VIRTUAL_CENTER hv), VMwareInstance),
             (lower (MS_VIRTUAL_SERVER hv), HyperVInstance),
             (lower (AMAZON hv), AmazonInstance),
             (lower (AZURE hv), AzureInstance),
             (lower (AZURE_V2 hv), AzureRMInstance)] name"
    by (simp add: VirtualServerInstance_new_def)
  have vmware: "VirtualServerInstance_new hv (lower (VIRTUAL_CENTER hv)) = Some VMwareInstance"
    by (simp add: VirtualServerInstance_new_def)
  have upper: "(\<exists>c \<in> set name. is_upper c) \<longrightarrow> VirtualServerInstance_new hv name = None"
  proof
    assume u: "\<exists>c \<in> set name. is_upper c"
    show "VirtualServerInstance_new hv name = None"
      using upper_name_not_lower[OF u] by (simp add: VirtualServerInstance_new_def)
  qed
  from first_match vmware upper show ?thesis
    by (metis)
qed

theorem dispatch_exact_match_witness:
  "lower (VIRTUAL_CENTER sample_hypervisor_type) = ''virtualcenter'' \<and>
   VirtualServerInstance_new sample_hypervisor_type ''virtualcenter'' = Some VMwareInstance \<and>
   (\<exists>c \<in> set ''Amazon''. is_upper c) \<and>
   VirtualServerInstance_new sample_hypervisor_type ''Amazon'' = None"
proof -
  have l: "lower (VIRTUAL_CENTER sample_hypervisor_type) = ''virtualcenter''"
    by (simp add: sample_hypervisor_type_def lower_def lower_char_def)
  have u: "\<exists>c \<in> set ''Amazon''. is_upper c"
    by (simp add: is_upper_def)
  have 1: "VirtualServerInstance_new sample_hypervisor_type ''virtualcenter'' = Some VMwareInstance"
    using l dispatch_exact_match[of sample_hypervisor_type "''Amazon''"] by blast
  have 2: "VirtualServerInstance_new sample_hypervisor_type ''Amazon'' = None"
    using u dispatch_exact_match[of sample_hypervisor_type "''Amazon''"] by blast
  from l u 1 2 show ?thesis
    by blast
qed

text \<open>
  C2 does not hold of the code.  For every name that equals none of the five lower-cased
  discriminators \<open>__new__\<close> returns \<open>None\<close>: the construction raises nothing and yields
  no object of any instance class.
\<close>

theorem unmatched_name_returns_None:
  assumes "name \<notin> {lower (VIRTUAL_CENTER hv), lower (MS_VIRTUAL_SERVER hv), lower (AMAZON hv),
                     lower (AZURE hv), lower (AZURE_V2 hv)}"
  shows "VirtualServerInstance_new hv name = None"
  using assms by (simp add: VirtualServerInstance_new_def)

theorem unmatched_name_returns_None_witness:
  "''xen'' \<notin> {lower (VIRTUAL_CENTER sample_hypervisor_type),
               lower (MS_VIRTUAL_SERVER sample_hypervisor_type),
               lower (AMAZON sample_hypervisor_type),
               lower (AZURE sample_hypervisor_type),
               lower (AZURE_V2 sample_hypervisor_type)} \<and>
   VirtualServerInstance_new sample_hypervisor_type ''xen'' = None"
proof -
  have h: "''xen'' \<notin> {lower (VIRTUAL_CENTER sample_hypervisor_type),
               lower (MS_VIRTUAL_SERVER sample_hypervisor_type),
               lower (AMAZON sample_hypervisor_type),
               lower (AZURE sample_hypervisor_type),
               lower (AZURE_V2 sample_hypervisor_type)}"
    by (simp add: sample_hypervisor_type_def lower_def lower_char_def)
  show ?thesis
    using h unmatched_name_returns_None[OF h] by simp
qed

section \<open>The setter of the associated clients\<close>

lemma check_clients_list_ok:
  "\<forall>x \<in> set xs. is_str x \<Longrightarrow> check_clients_list xs = None"
  by (induction xs) auto

lemma check_clients_list_bad:
  "\<exists>x \<in> set xs. \<not> is_str x \<Longrightarrow> check_clients_list xs = Some (KeyError (PStr ''105''))"
  by (induction xs) (auto simp: raise_Instance_105)

lemma common_json_clientName:
  "PDict [(''client'', PDict (dict_setitem common_json ''clientName'' n))] = member_server n"
  by (simp add: common_json_def member_server_def)

lemma member_servers_loop_ok:
  "\<forall>x \<in> set xs. has_client self x \<or> has_clientgroup self x \<Longrightarrow>
     member_servers_loop self xs acc = Inr (acc @ map member_server xs)"
proof (induction xs arbitrary: acc)
  case Nil
  then show ?case by simp
next
  case (Cons x xs)
  then show ?case
    by (auto simp: common_json_clientName Let_def)
qed

lemma member_servers_loop_bad:
  "\<exists>x \<in> set xs. \<not> has_client self x \<and> \<not> has_clientgroup self x \<Longrightarrow>
     member_servers_loop self xs acc = Inl (KeyError (PStr ''105''))"
proof (induction xs arbitrary: acc)
  case Nil
  then show ?case by simp
next
  case (Cons x xs)
  show ?case
  proof (cases "has_client self x \<or> has_clientgroup self x")
    case True
    with Cons.prems have "\<exists>y \<in> set xs. \<not> has_client self y \<and> \<not> has_clientgroup self y"
      by auto
    from Cons.IH[OF this] True show ?thesis
      by (auto simp: Let_def)
  next
    case False
    then show ?thesis
      by (simp add: Let_def raise_Instance_105)
  qed
qed

lemma setter_not_str:
  assumes "\<exists>x \<in> set xs. \<not> is_str x"
  shows "associated_clients_setter self xs = (Inl (KeyError (PStr ''105'')), self)"
  by (simp add: associated_clients_setter_def check_clients_list_bad[OF assms])

lemma setter_unresolved:
  assumes "\<exists>x \<in> set xs. \<not> has_client self x \<and> \<not> has_clientgroup self x"
  shows "associated_clients_setter self xs = (Inl (KeyError (PStr ''105'')), self)"
proof (cases "\<forall>x \<in> set xs. is_str x")
  case True
  then show ?thesis
    by (simp add: associated_clients_setter_def check_clients_list_ok
        member_servers_loop_bad[OF assms])
next
  case False
  then show ?thesis
    by (simp add: setter_not_str)
qed

lemma setter_resolved:
  assumes "\<forall>x \<in> set xs. is_str x"
    and "\<forall>x \<in> set xs. has_client self x \<or> has_clientgroup self x"
  shows "associated_clients_setter self xs =
           Instance_set_instance_properties self associated_clients_path
             (PDict [(''memberServers'', PList (map member_server xs))])"
  by (simp add: associated_clients_setter_def check_clients_list_ok[OF assms(1)]
      member_servers_loop_ok[OF assms(2)])

lemma all_keys_member_server:
  "is_str x \<Longrightarrow> all_keys (member_server x) =
     [''client'', ''srmReportSet'', ''type'', ''srmReportType'', ''clientSidePackage'',
      ''_type_'', ''consumeLicense'', ''clientName'']"
  by (cases x) (simp_all add: member_server_def)

lemma all_keys_payload:
  assumes "\<forall>x \<in> set xs. is_str x"
  shows "set (all_keys (PDict [(''memberServers'', PList (map member_server xs))])) \<subseteq>
     {''memberServers'', ''client'', ''srmReportSet'', ''type'', ''srmReportType'',
      ''clientSidePackage'', ''_type_'', ''consumeLicense'', ''clientName''}"
  using assms by (auto simp: all_keys_member_server)

lemma check_clients_list_error:
  "check_clients_list xs = Some e \<Longrightarrow> e = raise_SDKException ''Instance'' ''105'' ''''"
  by (induction xs) (auto split: if_splits)

lemma member_servers_loop_error:
  "member_servers_loop self xs acc = Inl e \<Longrightarrow> e = raise_SDKException ''Instance'' ''105'' ''''"
  by (induction xs arbitrary: acc) (auto simp: Let_def split: if_splits)

lemma SDKException_init_absent:
  assumes "\<not> (\<exists>codes base. (m, codes) \<in> set EXCEPTION_DICT \<and> (i, base) \<in> set codes)"
  shows "\<exists>k. SDKException_init m i msg = Inl (KeyError k) \<and> raise_SDKException m i msg = KeyError k"
proof (cases "m \<in> fst ` set EXCEPTION_DICT")
  case False
  then have "lookup_message m i = Inl (KeyError (PStr m))"
    by (rule lookup_message_unknown_module)
  then show ?thesis
    by (simp add: SDKException_init_def raise_SDKException_def)
next
  case True
  then obtain codes where c: "(m, codes) \<in> set EXCEPTION_DICT"
    by auto
  with assms have "i \<notin> fst ` set codes"
    by auto
  with c have "lookup_message m i = Inl (KeyError (PStr i))"
    by (rule lookup_message_unknown_code)
  then show ?thesis
    by (simp add: SDKException_init_def raise_SDKException_def)
qed

lemma submissions_after_set:
  "server_submissions (snd (Instance_set_instance_properties self p v)) =
     server_submissions self @ [(p, v)]"
  by (simp add: Instance_set_instance_properties_def Let_def)

text \<open>
  C3.  The table of the module \<open>Instance\<close> has the ids 101 to 104 only.  The only error
  the first loop and the second loop of the setter can end with is what
  \<open>raise SDKException('Instance', '105')\<close> produces.  For every (module, id) pair that is
  not in the catalog the constructor fails with a \<open>KeyError\<close> and that error is what the
  \<open>raise\<close> statement propagates; for \<open>('Instance', '105')\<close> it is \<open>KeyError('105')\<close>.  So
  the setter fails with the same \<open>KeyError('105')\<close> for a non-string entry and for a
  name that resolves to neither a client nor a client group.
\<close>

theorem setter_failures_are_KeyError:
  "((''Instance'', codes) \<in> set EXCEPTION_DICT \<longrightarrow>
      map fst codes = [''101'', ''102'', ''103'', ''104'']) \<and>
   (check_clients_list xs = Some e \<longrightarrow> e = raise_SDKException ''Instance'' ''105'' '''') \<and>
   (member_servers_loop self xs acc = Inl e \<longrightarrow> e = raise_SDKException ''Instance'' ''105'' '''') \<and>
   (\<not> (\<exists>cs base. (m, cs) \<in> set EXCEPTION_DICT \<and> (i, base) \<in> set cs) \<longrightarrow>
      (\<exists>k. SDKException_init m i msg = Inl (KeyError k) \<and>
           raise_SDKException m i msg = KeyError k)) \<and>
   SDKException_init ''Instance'' ''105'' msg = Inl (KeyError (PStr ''105'')) \<and>
   raise_SDKException ''Instance'' ''105'' msg = KeyError (PStr ''105'') \<and>
   ((\<exists>x \<in> set xs. \<not> is_str x) \<longrightarrow>
      fst (associated_clients_setter self xs) = Inl (KeyError (PStr ''105''))) \<and>
   ((\<forall>x \<in> set xs. is_str x) \<and>
    (\<exists>x \<in> set xs. \<not> has_client self x \<and> \<not> has_clientgroup self x) \<longrightarrow>
      fst (associated_clients_setter self xs) = Inl (KeyError (PStr ''105'')))"
proof -
  have init: "SDKException_init ''Instance'' ''105'' msg = Inl (KeyError (PStr ''105''))"
    by (simp add: SDKException_init_def lookup_message_def dict_getitem_def EXCEPTION_DICT_def)
  show ?thesis
    using Instance_codes[of codes] check_clients_list_error[of xs e]
      member_servers_loop_error[of self xs acc e] SDKException_init_absent[of m i msg]
      init raise_Instance_105[of msg] setter_not_str[of xs self] setter_unresolved[of xs self]
    by (intro conjI impI) simp_all
qed

theorem setter_failures_are_KeyError_witness:
  "(''Instance'',
      [(''101'', ''Data type of the input(s) is not valid''),
       (''102'', ''''),
       (''103'', ''Input date is incorrect''),
       (''104'', ''Instance Level Browse is not supported. Instance should have a single backupset'')])
     \<in> set EXCEPTION_DICT \<and>
   check_clients_list [PInt 7] = Some (KeyError (PStr ''105'')) \<and>
   member_servers_loop sample_instance [PStr ''nobody''] [] = Inl (KeyError (PStr ''105'')) \<and>
   fst (associated_clients_setter sample_instance [PInt 7]) = Inl (KeyError (PStr ''105'')) \<and>
   fst (associated_clients_setter sample_instance [PStr ''nobody'']) = Inl (KeyError (PStr ''105''))"
proof -
  let ?codes = "[(''101'', ''Data type of the input(s) is not valid''),
       (''102'', ''''),
       (''103'', ''Input date is incorrect''),
       (''104'', ''Instance Level Browse is not supported. Instance should have a single backupset'')]"
  have h: "(''Instance'', ?codes) \<in> set EXCEPTION_DICT"
    by (simp add: EXCEPTION_DICT_def)
  have si: "has_client sample_instance = (\<lambda>x. x = PStr ''proxy1'' \<or> x = PStr ''proxy2'')"
      "has_clientgroup sample_instance = (\<lambda>x. x = PStr ''proxies'')"
    by (simp_all add: sample_instance_def sample_unloaded_def get_instance_properties_def
        Instance_get_instance_properties_def sample_document_def dict_getitem_def Let_def)
  have c: "check_clients_list [PInt 7] = Some (raise_SDKException ''Instance'' ''105'' '''')"
    by simp
  have l: "member_servers_loop sample_instance [PStr ''nobody''] [] =
      Inl (raise_SDKException ''Instance'' ''105'' '''')"
    by (simp add: si)
  have a: "\<exists>x \<in> set [PInt 7]. \<not> is_str x"
    by simp
  have b: "(\<forall>x \<in> set [PStr ''nobody'']. is_str x) \<and>
    (\<exists>x \<in> set [PStr ''nobody'']. \<not> has_client sample_instance x \<and> \<not> has_clientgroup sample_instance x)"
    by (simp add: si)
  have 1: "fst (associated_clients_setter sample_instance [PInt 7]) = Inl (KeyError (PStr ''105''))"
    using a setter_failures_are_KeyError[of ?codes "[PInt 7]" _ sample_instance "[]" "''Instance''" "''105''" "''''"]
    by blast
  have 2: "fst (associated_clients_setter sample_instance [PStr ''nobody'']) = Inl (KeyError (PStr ''105''))"
    using b setter_failures_are_KeyError[of ?codes "[PStr ''nobody'']" _ sample_instance "[]" "''Instance''" "''105''" "''''"]
    by blast
  have r: "raise_SDKException ''Instance'' ''105'' '''' = KeyError (PStr ''105'')"
    using setter_failures_are_KeyError[of ?codes "[PInt 7]" _ sample_instance "[]" "''Instance''" "''105''" "''''"]
    by blast
  from h c l 1 2 r show ?thesis
    by simp
qed

lemma sample_instance_lookups:
  "has_client sample_instance = (\<lambda>x. x = PStr ''proxy1'' \<or> x = PStr ''proxy2'')"
  "has_clientgroup sample_instance = (\<lambda>x. x = PStr ''proxies'')"
  by (simp_all add: sample_instance_def sample_unloaded_def get_instance_properties_def
      Instance_get_instance_properties_def sample_document_def dict_getitem_def Let_def)

text \<open>
  C4 does not hold of the code in the kind of the error.  With an entry that is not a
  string the setter does stop before the base class is called (the object, the
  submissions and the server's document are as before), but what it fails with is the
  \<open>KeyError('105')\<close> of the catalog lookup, not an \<open>SDKException\<close>.
\<close>

theorem setter_non_string_entry:
  assumes "\<exists>x \<in> set xs. \<not> is_str x"
  shows "associated_clients_setter self xs = (Inl (KeyError (PStr ''105'')), self) \<and>
         server_submissions (snd (associated_clients_setter self xs)) = server_submissions self \<and>
         server_properties (snd (associated_clients_setter self xs)) = server_properties self"
  by (simp add: setter_not_str[OF assms])

theorem setter_non_string_entry_witness:
  "(\<exists>x \<in> set [PStr ''proxy1'', PInt 7]. \<not> is_str x) \<and>
   associated_clients_setter sample_instance [PStr ''proxy1'', PInt 7] =
     (Inl (KeyError (PStr ''105'')), sample_instance)"
proof -
  have h: "\<exists>x \<in> set [PStr ''proxy1'', PInt 7]. \<not> is_str x"
    by simp
  from h setter_non_string_entry[OF h, of sample_instance] show ?thesis
    by blast
qed

text \<open>
  C5 does not hold of the code in the kind of the error.  With a string in the input
  that is neither a known client nor a known client group the setter fails, the object
  unchanged, but with the \<open>KeyError('105')\<close> of the catalog lookup, not an
  \<open>SDKException\<close>.
\<close>

theorem setter_unresolved_name:
  assumes "PStr n \<in> set xs"
    and "\<not> has_client self (PStr n)" and "\<not> has_clientgroup self (PStr n)"
  shows "associated_clients_setter self xs = (Inl (KeyError (PStr ''105'')), self)"
proof -
  from assms have "\<exists>x \<in> set xs. \<not> has_client self x \<and> \<not> has_clientgroup self x"
    by blast
  then show ?thesis
    by (rule setter_unresolved)
qed

theorem setter_unresolved_name_witness:
  "PStr ''nobody'' \<in> set [PStr ''proxy1'', PStr ''nobody''] \<and>
   \<not> has_client sample_instance (PStr ''nobody'') \<and>
   \<not> has_clientgroup sample_instance (PStr ''nobody'') \<and>
   associated_clients_setter sample_instance [PStr ''proxy1'', PStr ''nobody''] =
     (Inl (KeyError (PStr ''105'')), sample_instance)"
proof -
  have 1: "PStr ''nobody'' \<in> set [PStr ''proxy1'', PStr ''nobody'']"
    by simp
  have 2: "\<not> has_client sample_instance (PStr ''nobody'')"
    by (simp add: sample_instance_lookups)
  have 3: "\<not> has_clientgroup sample_instance (PStr ''nobody'')"
    by (simp add: sample_instance_lookups)
  from 1 2 3 setter_unresolved_name[OF 1 2 3] show ?thesis
    by blast
qed

text \<open>
  C10.  When every entry is a string that is a known client or a known client group, the
  setter hands to the base class, as one submission, the dictionary whose \<open>memberServers\<close>
  list holds for every name, in order, the descriptor keyed \<open>client\<close> with the fixed
  default fields and \<open>clientName\<close>; a name that is only a client group gets that same
  descriptor, and the key \<open>clientGroupName\<close> occurs nowhere in what is submitted.
\<close>

theorem client_group_descriptor:
  assumes "\<forall>x \<in> set xs. is_str x"
    and "\<forall>x \<in> set xs. has_client self x \<or> has_clientgroup self x"
  shows "associated_clients_setter self xs =
           Instance_set_instance_properties self associated_clients_path
             (PDict [(''memberServers'', PList (map member_server xs))]) \<and>
         server_submissions (snd (associated_clients_setter self xs)) =
           server_submissions self @
             [(associated_clients_path, PDict [(''memberServers'', PList (map member_server xs))])] \<and>
         ''clientGroupName'' \<notin>
           set (all_keys (PDict [(''memberServers'', PList (map member_server xs))])) \<and>
         (\<forall>x \<in> set xs. \<not> has_client self x \<and> has_clientgroup self x \<longrightarrow>
            member_servers_loop self [x] [] = Inr [member_server x])"
proof -
  have 1: "associated_clients_setter self xs =
           Instance_set_instance_properties self associated_clients_path
             (PDict [(''memberServers'', PList (map member_server xs))])"
    using assms by (rule setter_resolved)
  have 2: "''clientGroupName'' \<notin>
           set (all_keys (PDict [(''memberServers'', PList (map member_server xs))]))"
    using all_keys_payload[OF assms(1)] by auto
  have 3: "\<forall>x \<in> set xs. \<not> has_client self x \<and> has_clientgroup self x \<longrightarrow>
            member_servers_loop self [x] [] = Inr [member_server x]"
  proof (intro ballI impI)
    fix x
    assume "x \<in> set xs" and "\<not> has_client self x \<and> has_clientgroup self x"
    then have "\<forall>y \<in> set [x]. has_client self y \<or> has_clientgroup self y"
      by simp
    from member_servers_loop_ok[OF this, of "[]"]
    show "member_servers_loop self [x] [] = Inr [member_server x]"
      by simp
  qed
  from 1 2 3 show ?thesis
    by (simp add: submissions_after_set)
qed

theorem client_group_descriptor_witness:
  "is_str (PStr ''proxy1'') \<and> is_str (PStr ''proxies'') \<and>
   has_client sample_instance (PStr ''proxy1'') \<and>
   \<not> has_client sample_instance (PStr ''proxies'') \<and>
   has_clientgroup sample_instance (PStr ''proxies'') \<and>
   server_submissions
     (snd (associated_clients_setter sample_instance [PStr ''proxy1'', PStr ''proxies''])) =
     server_submissions sample_instance @
     [(associated_clients_path,
       PDict [(''memberServers'',
               PList [member_server (PStr ''proxy1''), member_server (PStr ''proxies'')])])] \<and>
   member_servers_loop sample_instance [PStr ''proxies''] [] = Inr [member_server (PStr ''proxies'')]"
proof -
  have 1: "\<forall>x \<in> set [PStr ''proxy1'', PStr ''proxies'']. is_str x"
    by simp
  have 2: "\<forall>x \<in> set [PStr ''proxy1'', PStr ''proxies''].
       has_client sample_instance x \<or> has_clientgroup sample_instance x"
    by (simp add: sample_instance_lookups)
  have 3: "\<not> has_client sample_instance (PStr ''proxies'')"
    by (simp add: sample_instance_lookups)
  have 4: "has_clientgroup sample_instance (PStr ''proxies'')"
    by (simp add: sample_instance_lookups)
  note t = client_group_descriptor[OF 1 2]
  have 5: "server_submissions
     (snd (associated_clients_setter sample_instance [PStr ''proxy1'', PStr ''proxies''])) =
     server_submissions sample_instance @
     [(associated_clients_path,
       PDict [(''memberServers'',
               PList [member_server (PStr ''proxy1''), member_server (PStr ''proxies'')])])]"
    using t[THEN conjunct2, THEN conjunct1] by simp
  have 6: "member_servers_loop sample_instance [PStr ''proxies''] [] =
      Inr [member_server (PStr ''proxies'')]"
    using t[THEN conjunct2, THEN conjunct2, THEN conjunct2] 3 4
    by (simp del: member_servers_loop.simps)
  have 7: "has_client sample_instance (PStr ''proxy1'')"
    by (simp add: sample_instance_lookups)
  from 3 4 5 6 7 show ?thesis
    by simp
qed

section \<open>The getters\<close>

lemma associated_clients_loop_result:
  "fst (associated_clients_loop cs self) = Inr r \<Longrightarrow> \<exists>ns. r = PList ns"
  by (induction cs arbitrary: self) (auto split: sum.splits)

lemma associated_clients_result:
  assumes "fst (associated_clients self) = Inr r"
  shows "r = PNone \<or> (\<exists>ns. r = PList ns)"
  using assms associated_clients_loop_result
  by (auto simp: associated_clients_def Let_def split: sum.splits bool.splits if_splits)

lemma co_ordinator_TypeError:
  assumes "fst (associated_clients self) = Inr r"
  shows "fst (co_ordinator self) = Inl TypeError"
proof -
  from associated_clients_result[OF assms] have "py_getitem_str r ''Clients'' = Inl TypeError"
    by auto
  with assms show ?thesis
    by (cases "associated_clients self") (simp add: co_ordinator_def)
qed

lemma co_ordinator_getter_error:
  assumes "fst (associated_clients self) = Inl e"
  shows "fst (co_ordinator self) = Inl e"
  using assms by (cases "associated_clients self") (simp add: co_ordinator_def)

lemma sample_instance_state:
  "sample_instance =
     sample_unloaded\<lparr>self_properties := sample_document,
       self_virtualserverinstance :=
         Some (PDict [(''vsInstanceType'', PInt 1),
                    (''associatedClients'',
                     PDict [(''memberServers'',
                             PList [PDict [(''client'',
                                            PDict [(''clientName'', PStr ''proxy0'')])]])])]),
       self_vsinstancetype := PInt 1,
       self_asscociatedclients :=
         PDict [(''memberServers'',
                 PList [PDict [(''client'', PDict [(''clientName'', PStr ''proxy0'')])]])]\<rparr>"
  by (simp add: sample_instance_def sample_unloaded_def get_instance_properties_def
      Instance_get_instance_properties_def sample_document_def dict_getitem_def Let_def)

lemma sample_instance_getter:
  "fst (associated_clients sample_instance) = Inr (PList [PStr ''proxy0''])"
  by (simp add: sample_instance_state associated_clients_def dict_getitem_def Let_def)

text \<open>
  C6 does not hold of the code.  Whatever the getter \<open>associated_clients\<close> returns, a
  list of names or \<open>None\<close>, cannot be subscripted with the string \<open>'Clients'\<close>:
  \<open>co_ordinator\<close> raises \<open>TypeError\<close> whenever the getter returns, passes on the getter's
  own error otherwise, and never returns a value, with one associated client as with
  none.
\<close>

theorem co_ordinator_always_fails:
  "(fst (associated_clients self) = Inr r \<longrightarrow> fst (co_ordinator self) = Inl TypeError) \<and>
   (fst (associated_clients self) = Inl e \<longrightarrow> fst (co_ordinator self) = Inl e) \<and>
   fst (co_ordinator self) \<noteq> Inr v"
proof -
  have "fst (co_ordinator self) \<noteq> Inr v"
  proof (cases "fst (associated_clients self)")
    case (Inl a)
    then show ?thesis by (simp add: co_ordinator_getter_error)
  next
    case (Inr b)
    then show ?thesis by (simp add: co_ordinator_TypeError)
  qed
  then show ?thesis
    using co_ordinator_TypeError[of self r] co_ordinator_getter_error[of self e] by blast
qed

theorem co_ordinator_always_fails_witness:
  "fst (associated_clients sample_instance) = Inr (PList [PStr ''proxy0'']) \<and>
   fst (co_ordinator sample_instance) = Inl TypeError \<and>
   fst (co_ordinator sample_instance) \<noteq> Inr (PStr ''proxy0'')"
  using sample_instance_getter
    co_ordinator_always_fails[of sample_instance "PList [PStr ''proxy0'']" _ "PStr ''proxy0''"]
  by blast

section \<open>Setter, fetch and getter\<close>


















end
